theory Spec2Isabelle
  imports Complex_Main "HOL-Library.Log_Nat"
begin

section \<open>Data model of the render pipeline\<close>

text \<open>
  The \<^verbatim>\<open>float\<close> and \<^verbatim>\<open>double\<close> quantities of the render pipeline (\<^verbatim>\<open>ws_alpha\<close>,
  view positions, opacities) are embedded as \<^typ>\<open>real\<close>: their arithmetic is read as
  exact arithmetic. The one conversion of a \<^verbatim>\<open>float\<close> to an integer, the refresh rate
  of the mode negotiation, is modelled with the rounding of the binary format (see
  \<open>float32\<close> below). Pointers to workspaces are addresses (\<^typ>\<open>nat\<close>) into a store
  of workspaces; a nullable pointer is an \<^typ>\<open>'a option\<close>, and pointer comparison is
  comparison of addresses.
\<close>

text \<open>The fields of \<^verbatim>\<open>View\<close> that \<^verbatim>\<open>get_render_data\<close> reads, and an identity.\<close>

record view =
  view_id :: nat
  view_x :: real
  view_y :: real
  view_width :: int
  view_height :: int
  view_rotation :: real
  view_alpha :: real

record layout_t =
  layout_x :: real
  layout_y :: real
  layout_width :: real
  layout_height :: real
  layout_rotation :: real

record render_data =
  layout :: layout_t
  rd_alpha :: real

text \<open>
  A workspace as \<^verbatim>\<open>Output::render\<close> uses it: its \<^verbatim>\<open>index\<close>, its
  \<^verbatim>\<open>fullscreen_view\<close> pointer, and the sequence that its member function
  \<^verbatim>\<open>visible_views()\<close> yields (the function's body is not part of the sources at
  hand, so its result is a field of the model).
\<close>

record workspace_t =
  ws_index :: int
  fullscreen_view :: "view option"
  visible_views :: "view list"

type_synonym ws_ptr = nat
type_synonym ws_store = "ws_ptr \<Rightarrow> workspace_t"

text \<open>
  The render context: the batch under construction (\<^verbatim>\<open>views\<close>,
  \<^verbatim>\<open>fullscreen_view\<close>) and the calls that reached the renderer and the damage
  tracker, in order.
\<close>

datatype ctx_event =
    DoRender "(view \<times> render_data) list" "view option"
  | DamageWhole

record context_t =
  ctx_views :: "(view \<times> render_data) list"
  ctx_fullscreen_view :: "view option"
  ctx_trace :: "ctx_event list"

record output_t =
  enabled :: bool
  out_width :: int
  workspace :: ws_ptr
  prev_workspace :: "ws_ptr option"
  ws_alpha :: real
  render_context :: context_t

section \<open>Output::render\<close>

definition get_render_data :: "view \<Rightarrow> render_data" where
  "get_render_data v =
     \<lparr>layout = \<lparr>layout_x = view_x v, layout_y = view_y v,
                 layout_width = real_of_int (view_width v),
                 layout_height = real_of_int (view_height v),
                 layout_rotation = view_rotation v\<rparr>,
      rd_alpha = view_alpha v\<rparr>"

text \<open>
  Modelled from the spec: \<^verbatim>\<open>context.reset()\<close> belongs to the render context, whose
  code is not among the sources; the specification says that it resets the
  render-data batch.
\<close>

definition context_reset :: "context_t \<Rightarrow> context_t" where
  "context_reset c = c\<lparr>ctx_views := [], ctx_fullscreen_view := None\<rparr>"

text \<open>
  Modelled from the spec: \<^verbatim>\<open>context.do_render()\<close> is code of the render context too;
  the specification says that it hands the batch to the renderer. The hand-over is
  recorded in the trace.
\<close>

definition do_render :: "context_t \<Rightarrow> context_t" where
  "do_render c = c\<lparr>ctx_trace := ctx_trace c @ [DoRender (ctx_views c) (ctx_fullscreen_view c)]\<rparr>"

text \<open>
  Modelled from the spec: \<^verbatim>\<open>context.damage_whole()\<close>, also of the render context,
  marks the whole output area damaged; the call is recorded in the trace.
\<close>

definition damage_whole :: "context_t \<Rightarrow> context_t" where
  "damage_whole c = c\<lparr>ctx_trace := ctx_trace c @ [DamageWhole]\<rparr>"

text \<open>Lines 34 to 36: a pending change of workspace restarts the blend.\<close>

definition restart_alpha :: "output_t \<Rightarrow> real" where
  "restart_alpha out =
     (if prev_workspace out \<noteq> Some (workspace out) \<and> prev_workspace out \<noteq> None
         \<and> 1 \<le> ws_alpha out
      then 0 else ws_alpha out)"

text \<open>Lines 37 and 38: the step and the clamp.\<close>

definition step_alpha :: "real \<Rightarrow> real" where
  "step_alpha a =
     (let a1 = (if a \<le> 1 then a + 1 / 10 else a)
      in if 1 < a1 then 1 else a1)"

definition new_alpha :: "output_t \<Rightarrow> real" where
  "new_alpha out = step_alpha (restart_alpha out)"

text \<open>Lines 48 to 51: one entry of the previous workspace.\<close>

definition prev_entry :: "real \<Rightarrow> real \<Rightarrow> view \<Rightarrow> view \<times> render_data" where
  "prev_entry prev_ws_alpha dx v =
     (let data = get_render_data v;
          data = data\<lparr>rd_alpha := rd_alpha data * prev_ws_alpha\<rparr>;
          data = data\<lparr>layout := (layout data)\<lparr>layout_x := layout_x (layout data) - dx\<rparr>\<rparr>
      in (v, data))"

text \<open>Lines 63 to 66: one entry of the current workspace.\<close>

definition cur_entry :: "real \<Rightarrow> real \<Rightarrow> view \<Rightarrow> view \<times> render_data" where
  "cur_entry a dx v =
     (let data = get_render_data v;
          data = data\<lparr>rd_alpha := rd_alpha data * a\<rparr>;
          data = data\<lparr>layout := (layout data)\<lparr>layout_x := layout_x (layout data) + dx\<rparr>\<rparr>
      in (v, data))"

text \<open>Lines 43 to 53: the entries of the previous workspace.\<close>

definition prev_views :: "ws_store \<Rightarrow> output_t \<Rightarrow> real \<Rightarrow> (view \<times> render_data) list" where
  "prev_views ws out a =
     (let prev_ws_alpha = 1 - a
      in case prev_workspace out of
           None \<Rightarrow> []
         | Some p \<Rightarrow>
             if 0 < prev_ws_alpha then
               (let dx = real_of_int (out_width out) * a;
                    dx = (if ws_index (ws (workspace out)) < ws_index (ws p) then - dx else dx)
                in map (prev_entry prev_ws_alpha dx) (visible_views (ws p)))
             else [])"

text \<open>Lines 59 to 68, with \<open>prev\<close> the value of \<^verbatim>\<open>prev_workspace\<close> after line 57.\<close>

definition cur_views :: "ws_store \<Rightarrow> output_t \<Rightarrow> ws_ptr option \<Rightarrow> real \<Rightarrow> (view \<times> render_data) list" where
  "cur_views ws out prev a =
     (if 0 < a then
        (let dx = real_of_int (out_width out) * (1 - a);
             dx = (case prev of
                     None \<Rightarrow> dx
                   | Some p \<Rightarrow>
                       if ws_index (ws (workspace out)) < ws_index (ws p) then - dx else dx)
         in map (cur_entry a dx) (visible_views (ws (workspace out))))
      else [])"

text \<open>Lines 71 to 73.\<close>

definition finish_render :: "real \<Rightarrow> context_t \<Rightarrow> context_t" where
  "finish_render a c =
     (let c = do_render c
      in if a < 1 then damage_whole c else c)"

definition render :: "ws_store \<Rightarrow> output_t \<Rightarrow> output_t" where
  "render ws out =
     (if \<not> enabled out then out
      else
        let c = context_reset (render_context out);
            a = new_alpha out
        in if prev_workspace out = Some (workspace out)
              \<and> fullscreen_view (ws (workspace out)) \<noteq> None
           then
             out\<lparr>ws_alpha := a,
                 render_context := finish_render a
                   (c\<lparr>ctx_fullscreen_view := fullscreen_view (ws (workspace out))\<rparr>)\<rparr>
           else
             (let c = c\<lparr>ctx_views := ctx_views c @ prev_views ws out a\<rparr>;
                  prev = (if 1 \<le> a then Some (workspace out) else prev_workspace out);
                  c = c\<lparr>ctx_views := ctx_views c @ cur_views ws out prev a\<rparr>
              in out\<lparr>ws_alpha := a, prev_workspace := prev,
                     render_context := finish_render a c\<rparr>))"

text \<open>
  The entry that the specification describes for a view in a transition frame: the
  view's render data with the opacity scaled by \<open>factor\<close> and the horizontal position
  displaced by \<open>offset\<close>.
\<close>

definition blended :: "real \<Rightarrow> real \<Rightarrow> view \<Rightarrow> view \<times> render_data" where
  "blended factor offset v =
     (v, \<lparr>layout = \<lparr>layout_x = view_x v + offset, layout_y = view_y v,
                     layout_width = real_of_int (view_width v),
                     layout_height = real_of_int (view_height v),
                     layout_rotation = view_rotation v\<rparr>,
          rd_alpha = view_alpha v * factor\<rparr>)"

section \<open>Mode negotiation\<close>

text \<open>
  An advertised mode (\<^verbatim>\<open>wlr_output_mode\<close>: width, height and refresh in millihertz)
  and the configured target (\<^verbatim>\<open>Config::Output::mode\<close>). The list of advertised modes
  is in the order in which \<^verbatim>\<open>wl_list_for_each\<close> visits it; a mode is identified with
  its contents.
\<close>

record output_mode =
  mode_width :: int
  mode_height :: int
  mode_refresh :: int

record config_mode =
  cm_width :: int
  cm_height :: int
  cm_refresh_rate :: real

type_synonym drm_mode_info = nat

record config_output =
  oc_enable :: bool
  oc_mode :: config_mode
  oc_modes :: "drm_mode_info list"
  oc_scale :: real
  oc_transform :: nat
  oc_x :: int
  oc_y :: int

text \<open>
  The calls that reach the backend and the error log (debug logging is left out).
  \<open>Undefined\<close> marks a point where the behaviour of the program is undefined; what a
  trace holds after it carries no meaning.
\<close>

datatype backend_call =
    Undefined
  | SetCustomMode int int int
  | SetMode output_mode
  | LogE string
  | AddMode drm_mode_info
  | SetScale real
  | SetTransform nat
  | LayoutAdd int int
  | LayoutAddAuto
  | OutputEnable bool
  | ArrangeLayers
  | ContextDamageWhole

text \<open>
  The configured \<^verbatim>\<open>refresh_rate\<close> is a \<^verbatim>\<open>float\<close>, and line 78 multiplies it by
  \<open>1000\<close> in that type: IEEE 754 binary32 with rounding to nearest, ties to even.
  \<open>float32 x\<close> is the number of the format nearest to \<open>x\<close>: \<open>binade\<close> is the
  exponent \<open>e\<close> with \<open>2 ^ e \<le> \<bar>x\<bar> < 2 ^ (e + 1)\<close> (not below \<open>- 126\<close>, where the
  subnormal numbers begin), and the 24 bits of the significand leave the spacing
  \<open>2 ^ (e - 23)\<close>. A magnitude beyond the format's range, which the format rounds to an
  infinity, stays a large number here; the conversion to \<^verbatim>\<open>int\<close> is undefined for
  both. The field \<open>cm_refresh_rate\<close> gives the rate as a real number, and the
  \<^verbatim>\<open>float\<close> that holds it is \<open>float32\<close> of it (a not-a-number is not a value of the
  model).
\<close>

definition round_half_even :: "real \<Rightarrow> int" where
  "round_half_even x =
     (let f = \<lfloor>x\<rfloor>; r = x - real_of_int f
      in if r < 1 / 2 then f
         else if 1 / 2 < r then f + 1
         else if even f then f else f + 1)"

definition pow2 :: "int \<Rightarrow> real" where
  "pow2 e = (if 0 \<le> e then 2 ^ nat e else 1 / 2 ^ nat (- e))"

definition binade :: "real \<Rightarrow> int" where
  "binade y = (if 1 \<le> y then bitlen \<lfloor>y\<rfloor> - 1 else - bitlen (\<lceil>1 / y\<rceil> - 1))"

definition float32 :: "real \<Rightarrow> real" where
  "float32 x =
     (if x = 0 then 0
      else
        let e = max (binade \<bar>x\<bar>) (- 126);
            q = pow2 (e - 23)
        in sgn x * real_of_int (round_half_even (\<bar>x\<bar> / q)) * q)"

text \<open>
  The conversion \<^verbatim>\<open>(int) x\<close> of C++ discards the fractional part, that is, it
  truncates toward zero; the behaviour is undefined (\<open>None\<close>) when the truncated
  value is not a value of the 32-bit \<^verbatim>\<open>int\<close>.
\<close>

definition int_of_float :: "real \<Rightarrow> int option" where
  "int_of_float x =
     (let t = (if 0 \<le> x then \<lfloor>x\<rfloor> else \<lceil>x\<rceil>)
      in if - (2 ^ 31) \<le> t \<and> t < 2 ^ 31 then Some t else None)"

text \<open>Line 78: the product in \<^verbatim>\<open>float\<close>, then the conversion.\<close>

definition refresh_product :: "config_output \<Rightarrow> real" where
  "refresh_product oc = float32 (float32 (cm_refresh_rate (oc_mode oc)) * 1000)"

definition mhz_of :: "config_output \<Rightarrow> int option" where
  "mhz_of oc = int_of_float (refresh_product oc)"

text \<open>Lines 86 to 96: the scan, with \<open>best\<close> as the loop's variable.\<close>

fun scan_modes :: "config_output \<Rightarrow> int \<Rightarrow> output_mode list \<Rightarrow> output_mode option
    \<Rightarrow> output_mode option" where
  "scan_modes oc mhz [] best = best"
| "scan_modes oc mhz (m # ms) best =
     (if mode_width m = cm_width (oc_mode oc) \<and> mode_height m = cm_height (oc_mode oc) then
        (if mode_refresh m = mhz then Some m
         else scan_modes oc mhz ms (Some m))
      else scan_modes oc mhz ms best)"

definition set_mode :: "output_mode list \<Rightarrow> config_output \<Rightarrow> backend_call list" where
  "set_mode modes oc =
     (case mhz_of oc of
        None \<Rightarrow> [Undefined]
      | Some mhz \<Rightarrow>
          if modes = [] then
            [SetCustomMode (cm_width (oc_mode oc)) (cm_height (oc_mode oc)) mhz]
          else
            (case scan_modes oc mhz modes None of
               None \<Rightarrow> [LogE ''Configured mode for {} not available'']
             | Some best \<Rightarrow> [SetMode best]))"

text \<open>
  The negotiation in the words of the specification: a custom mode when nothing is
  advertised; else the first advertised mode that matches width, height and refresh;
  else the last one that matches width and height; else an error and no mode. (Where
  the conversion of line 78 is undefined, so is the negotiation.)
\<close>

definition wh_match :: "config_output \<Rightarrow> output_mode \<Rightarrow> bool" where
  "wh_match oc m \<longleftrightarrow>
     mode_width m = cm_width (oc_mode oc) \<and> mode_height m = cm_height (oc_mode oc)"

definition exact_match :: "config_output \<Rightarrow> output_mode \<Rightarrow> bool" where
  "exact_match oc m \<longleftrightarrow> wh_match oc m \<and> mhz_of oc = Some (mode_refresh m)"

definition set_mode_spec :: "output_mode list \<Rightarrow> config_output \<Rightarrow> backend_call list" where
  "set_mode_spec modes oc =
     (case mhz_of oc of
        None \<Rightarrow> [Undefined]
      | Some mhz \<Rightarrow>
          if modes = [] then
            [SetCustomMode (cm_width (oc_mode oc)) (cm_height (oc_mode oc)) mhz]
          else
            (case find (exact_match oc) modes of
               Some m \<Rightarrow> [SetMode m]
             | None \<Rightarrow>
                 (case filter (wh_match oc) modes of
                    [] \<Rightarrow> [LogE ''Configured mode for {} not available'']
                  | m # ms \<Rightarrow> [SetMode (last (m # ms))])))"

section \<open>Construction of an output\<close>

text \<open>
  The backend calls of the constructor \<^verbatim>\<open>Output::Output\<close>, in order (the listener
  registrations and debug logging are left out). Its parameters stand for what the
  constructor reads from outside: the advertised modes, whether the output is a DRM
  output, the configuration entry \<^verbatim>\<open>desktop.config.get_output\<close> finds (if any), and
  \<open>add_mode\<close>, the change that the backend's \<^verbatim>\<open>wlr_drm_connector_add_mode\<close> makes
  to the list of advertised modes.
\<close>

definition output_ctor ::
  "(output_mode list \<Rightarrow> drm_mode_info \<Rightarrow> output_mode list) \<Rightarrow> bool \<Rightarrow> output_mode list
     \<Rightarrow> config_output option \<Rightarrow> backend_call list" where
  "output_ctor add_mode is_drm modes output_config =
     (if modes \<noteq> [] then [SetMode (last modes)] else [])
     @ (case output_config of
          Some oc \<Rightarrow>
            if oc_enable oc then
              (if is_drm then map AddMode (oc_modes oc)
               else if oc_modes oc = [] then [LogE ''Can only add modes for DRM backend'']
               else [])
              @ (if cm_width (oc_mode oc) \<noteq> 0
                 then set_mode (if is_drm then foldl add_mode modes (oc_modes oc) else modes) oc
                 else [])
              @ [SetScale (oc_scale oc), SetTransform (oc_transform oc),
                 LayoutAdd (oc_x oc) (oc_y oc)]
            else [OutputEnable False]
        | None \<Rightarrow> [LayoutAddAuto])
     @ [ArrangeLayers, ContextDamageWhole]"

text \<open>The requests of a trace that set a mode.\<close>

fun is_mode_request :: "backend_call \<Rightarrow> bool" where
  "is_mode_request (SetMode m) = True"
| "is_mode_request (SetCustomMode w h r) = True"
| "is_mode_request c = False"

definition mode_requests :: "backend_call list \<Rightarrow> backend_call list" where
  "mode_requests cs = filter is_mode_request cs"

section \<open>Binding the globals of the keyboard client\<close>

text \<open>
  The client's three proxies are null until \<^verbatim>\<open>registry.bind\<close> stores a bound object
  in them; the \<^verbatim>\<open>wl_registry_bind\<close> requests are recorded in order. The interface
  names are the constants of the generated protocol headers.
\<close>

datatype registry_call =
    Bind nat string nat
  | SeatOnName

record client_t =
  virtual_keyboard_manager :: "(nat \<times> nat) option"
  layer_shell :: "(nat \<times> nat) option"
  seat :: "(nat \<times> nat) option"
  registry_calls :: "registry_call list"

definition virtual_keyboard_manager_interface_name :: string where
  "virtual_keyboard_manager_interface_name = ''zwp_virtual_keyboard_manager_v1''"

definition layer_shell_interface_name :: string where
  "layer_shell_interface_name = ''zwlr_layer_shell_v1''"

definition seat_interface_name :: string where
  "seat_interface_name = ''wl_seat''"

text \<open>Lines 10 to 20: the handler of a global's announcement.\<close>

definition on_global :: "client_t \<Rightarrow> nat \<times> string \<times> nat \<Rightarrow> client_t" where
  "on_global c g =
     (case g of (name, interface, version) \<Rightarrow>
        if interface = virtual_keyboard_manager_interface_name then
          c\<lparr>virtual_keyboard_manager := Some (name, version),
            registry_calls := registry_calls c @ [Bind name interface version]\<rparr>
        else if interface = layer_shell_interface_name then
          c\<lparr>layer_shell := Some (name, version),
            registry_calls := registry_calls c @ [Bind name interface version]\<rparr>
        else if interface = seat_interface_name then
          (let c = (if seat c = None
                    then c\<lparr>seat := Some (name, version),
                           registry_calls := registry_calls c @ [Bind name interface version]\<rparr>
                    else c)
           in c\<lparr>registry_calls := registry_calls c @ [SeatOnName]\<rparr>)
        else c)"

text \<open>
  \<^verbatim>\<open>bind_interfaces\<close>: the handler runs on the announcements that the two round trips
  deliver.
\<close>

definition bind_interfaces ::
  "client_t \<Rightarrow> (nat \<times> string \<times> nat) list \<Rightarrow> (nat \<times> string \<times> nat) list \<Rightarrow> client_t" where
  "bind_interfaces c roundtrip1 roundtrip2 =
     foldl on_global (foldl on_global c roundtrip1) roundtrip2"

definition binds_of :: "string \<Rightarrow> client_t \<Rightarrow> registry_call list" where
  "binds_of interface c =
     filter (\<lambda>e. case e of Bind n i v \<Rightarrow> i = interface | SeatOnName \<Rightarrow> False)
       (registry_calls c)"

section \<open>Concrete inputs\<close>

definition view_a :: view where
  "view_a = \<lparr>view_id = 1, view_x = 100, view_y = 50, view_width = 640, view_height = 480,
              view_rotation = 0, view_alpha = 1\<rparr>"

definition view_b :: view where
  "view_b = \<lparr>view_id = 2, view_x = 20, view_y = 30, view_width = 800, view_height = 600,
              view_rotation = 0, view_alpha = 1 / 2\<rparr>"

text \<open>Address 2 holds the workspace of index 2, every other address one of index 0.\<close>

definition ex_store :: ws_store where
  "ex_store p =
     (if p = 2 then \<lparr>ws_index = 2, fullscreen_view = None, visible_views = [view_a]\<rparr>
      else \<lparr>ws_index = 0, fullscreen_view = None, visible_views = [view_b]\<rparr>)"

definition ex_fullscreen_store :: ws_store where
  "ex_fullscreen_store p =
     \<lparr>ws_index = 0, fullscreen_view = Some view_a, visible_views = [view_a]\<rparr>"

definition empty_context :: context_t where
  "empty_context = \<lparr>ctx_views = [], ctx_fullscreen_view = None, ctx_trace = []\<rparr>"

text \<open>An output of width 1000 on its way from the workspace at 2 to the one at 0.\<close>

definition ex_output :: "real \<Rightarrow> output_t" where
  "ex_output a =
     \<lparr>enabled = True, out_width = 1000, workspace = 0, prev_workspace = Some 2,
      ws_alpha = a, render_context = empty_context\<rparr>"

definition ex_settled :: output_t where
  "ex_settled =
     \<lparr>enabled = True, out_width = 1000, workspace = 0, prev_workspace = Some 0,
      ws_alpha = 1, render_context = empty_context\<rparr>"


definition mode_1080_60 :: output_mode where
  "mode_1080_60 = \<lparr>mode_width = 1920, mode_height = 1080, mode_refresh = 60000\<rparr>"

definition mode_1080_144 :: output_mode where
  "mode_1080_144 = \<lparr>mode_width = 1920, mode_height = 1080, mode_refresh = 144000\<rparr>"

definition mode_720_60 :: output_mode where
  "mode_720_60 = \<lparr>mode_width = 1280, mode_height = 720, mode_refresh = 60000\<rparr>"

definition mode_1080_5994 :: output_mode where
  "mode_1080_5994 = \<lparr>mode_width = 1920, mode_height = 1080, mode_refresh = 59940\<rparr>"

definition ex_config :: "bool \<Rightarrow> real \<Rightarrow> config_output" where
  "ex_config en rate =
     \<lparr>oc_enable = en,
      oc_mode = \<lparr>cm_width = 1920, cm_height = 1080, cm_refresh_rate = rate\<rparr>,
      oc_modes = [], oc_scale = 1, oc_transform = 0, oc_x = 0, oc_y = 0\<rparr>"

definition unbound_client :: client_t where
  "unbound_client =
     \<lparr>virtual_keyboard_manager = None, layer_shell = None, seat = None, registry_calls = []\<rparr>"

text \<open>A client that has bound the seat announced under the name 3.\<close>

definition seat_client :: client_t where
  "seat_client = bind_interfaces unbound_client [(3, seat_interface_name, 5)] []"

section \<open>The blend factor\<close>

lemma step_alpha_min: "step_alpha a = min 1 (a + 1 / 10)"
  by (simp add: step_alpha_def Let_def min_def)

lemma ws_alpha_render: "enabled out \<Longrightarrow> ws_alpha (render ws out) = new_alpha out"
  by (simp add: render_def Let_def)

lemma restart_alpha_nonneg: "0 \<le> ws_alpha out \<Longrightarrow> 0 \<le> restart_alpha out"
  by (simp add: restart_alpha_def)

lemma enabled_render: "enabled (render ws out) = enabled out"
  by (simp add: render_def Let_def)

lemma new_alpha_range: "0 \<le> ws_alpha out \<Longrightarrow> 0 \<le> new_alpha out \<and> new_alpha out \<le> 1"
  using restart_alpha_nonneg [of out] by (simp add: new_alpha_def step_alpha_min)

lemma frames_keep_range:
  assumes "enabled out" and "0 \<le> ws_alpha out"
  shows "enabled ((render ws ^^ n) out) \<and> 0 \<le> ws_alpha ((render ws ^^ n) out)"
proof (induction n)
  case 0
  from assms show ?case by simp
next
  case (Suc n)
  then show ?case
    using new_alpha_range [of "(render ws ^^ n) out"]
    by (simp add: enabled_render ws_alpha_render)
qed

text \<open>
  C5. Every \<^verbatim>\<open>render()\<close> of an enabled output adds the fixed step \<open>1/10\<close> to the
  blend factor (after a pending change of workspace has put it back to \<open>0\<close>) and
  clamps the sum at \<open>1\<close>; the factor is never above \<open>1\<close> afterwards, and from a
  factor that is not negative it is in \<open>[0, 1]\<close> after every later frame.
\<close>

theorem render_steps_and_clamps_ws_alpha:
  assumes "enabled out"
  shows "ws_alpha (render ws out) = min 1 (restart_alpha out + 1 / 10)
         \<and> ws_alpha (render ws out) \<le> 1
         \<and> (0 \<le> ws_alpha out \<longrightarrow>
              (\<forall>n. 0 \<le> ws_alpha ((render ws ^^ Suc n) out)
                   \<and> ws_alpha ((render ws ^^ Suc n) out) \<le> 1))"
proof -
  have eq: "ws_alpha (render ws out) = min 1 (restart_alpha out + 1 / 10)"
    using assms by (simp add: ws_alpha_render new_alpha_def step_alpha_min)
  have range: "0 \<le> ws_alpha ((render ws ^^ Suc n) out)
      \<and> ws_alpha ((render ws ^^ Suc n) out) \<le> 1" if "0 \<le> ws_alpha out" for n
    using frames_keep_range [where ws = ws and n = n, OF assms that]
      new_alpha_range [of "(render ws ^^ n) out"]
    by (simp add: ws_alpha_render)
  from eq range show ?thesis by simp
qed

theorem render_steps_and_clamps_ws_alpha_witness:
  "enabled (ex_output (19 / 20))
   \<and> ws_alpha (render ex_store (ex_output (19 / 20))) = 1
   \<and> ws_alpha (render ex_store (ex_output 1)) = 1 / 10
   \<and> ws_alpha (render ex_store (ex_output (1 / 5))) = 3 / 10
   \<and> 0 \<le> ws_alpha ((render ex_store ^^ Suc 7) (ex_output (1 / 5)))
   \<and> ws_alpha ((render ex_store ^^ Suc 7) (ex_output (1 / 5))) \<le> 1"
proof -
  have en: "enabled (ex_output a)" for a
    by (simp add: ex_output_def)
  have r: "restart_alpha (ex_output (19 / 20)) = 19 / 20" "restart_alpha (ex_output 1) = 0"
    "restart_alpha (ex_output (1 / 5)) = 1 / 5"
    by (simp_all add: restart_alpha_def ex_output_def)
  have nonneg: "0 \<le> ws_alpha (ex_output (1 / 5))"
    by (simp add: ex_output_def)
  have single: "ws_alpha (render ex_store (ex_output (19 / 20))) = 1"
    "ws_alpha (render ex_store (ex_output 1)) = 1 / 10"
    "ws_alpha (render ex_store (ex_output (1 / 5))) = 3 / 10"
    using render_steps_and_clamps_ws_alpha [OF en, of ex_store "19 / 20"]
      render_steps_and_clamps_ws_alpha [OF en, of ex_store 1]
      render_steps_and_clamps_ws_alpha [OF en, of ex_store "1 / 5"] r
    by simp_all
  have "\<forall>n. 0 \<le> ws_alpha ((render ex_store ^^ Suc n) (ex_output (1 / 5)))
      \<and> ws_alpha ((render ex_store ^^ Suc n) (ex_output (1 / 5))) \<le> 1"
    using render_steps_and_clamps_ws_alpha [OF en, of ex_store "1 / 5"] nonneg by blast
  then have frames: "0 \<le> ws_alpha ((render ex_store ^^ Suc 7) (ex_output (1 / 5)))
      \<and> ws_alpha ((render ex_store ^^ Suc 7) (ex_output (1 / 5))) \<le> 1"
    by (rule spec)
  from en single frames show ?thesis by blast
qed

section \<open>What reaches the renderer\<close>

lemma trace_finish_render:
  "ctx_trace (finish_render a c) =
     ctx_trace c @ [DoRender (ctx_views c) (ctx_fullscreen_view c)]
       @ (if a < 1 then [DamageWhole] else [])"
  by (simp add: finish_render_def do_render_def damage_whole_def Let_def)

lemma views_finish_render: "ctx_views (finish_render a c) = ctx_views c"
  by (simp add: finish_render_def do_render_def damage_whole_def Let_def)

lemma fullscreen_finish_render:
  "ctx_fullscreen_view (finish_render a c) = ctx_fullscreen_view c"
  by (simp add: finish_render_def do_render_def damage_whole_def Let_def)

text \<open>
  C8. A \<^verbatim>\<open>render()\<close> of an enabled output adds to the trace exactly the hand-over of
  the batch to the renderer, followed by one whole-output damage if the blend factor
  is below \<open>1\<close> after the update, and by nothing if it has reached \<open>1\<close>.
\<close>

theorem render_damages_while_animating:
  assumes "enabled out"
  shows "ctx_trace (render_context (render ws out)) =
           ctx_trace (render_context out)
           @ [DoRender (ctx_views (render_context (render ws out)))
                (ctx_fullscreen_view (render_context (render ws out)))]
           @ (if ws_alpha (render ws out) < 1 then [DamageWhole] else [])"
  using assms
  by (simp add: render_def Let_def trace_finish_render views_finish_render
      fullscreen_finish_render context_reset_def)

theorem render_damages_while_animating_witness:
  "ctx_trace (render_context (render ex_store (ex_output (1 / 5)))) =
     [DoRender (ctx_views (render_context (render ex_store (ex_output (1 / 5))))) None,
      DamageWhole]
   \<and> ctx_trace (render_context (render ex_store (ex_output (9 / 10)))) =
     [DoRender (ctx_views (render_context (render ex_store (ex_output (9 / 10))))) None]"
proof -
  have en: "enabled (ex_output a)" for a
    by (simp add: ex_output_def)
  have a1: "ws_alpha (render ex_store (ex_output (1 / 5))) = 3 / 10"
    by (simp add: ws_alpha_render en new_alpha_def step_alpha_min restart_alpha_def
        ex_output_def)
  have a2: "ws_alpha (render ex_store (ex_output (9 / 10))) = 1"
    by (simp add: ws_alpha_render en new_alpha_def step_alpha_min restart_alpha_def
        ex_output_def)
  have f: "ctx_fullscreen_view (render_context (render ex_store (ex_output a))) = None" for a
    by (simp add: render_def Let_def fullscreen_finish_render context_reset_def
        ex_output_def ex_store_def empty_context_def)
  have t: "ctx_trace (render_context (ex_output a)) = []" for a
    by (simp add: ex_output_def empty_context_def)
  show ?thesis
    using render_damages_while_animating [OF en, of ex_store "1 / 5"]
      render_damages_while_animating [OF en, of ex_store "9 / 10"]
    by (simp add: a1 a2 f t)
qed

text \<open>
  C6. When the previous and the active workspace are the same and the active
  workspace has a fullscreen view, the batch handed to the renderer is that view
  alone: no per-view entry is appended, so nothing is blended or shifted.
\<close>

theorem render_fullscreen_bypass:
  assumes "enabled out"
    and "prev_workspace out = Some (workspace out)"
    and "fullscreen_view (ws (workspace out)) = Some v"
  shows "ctx_views (render_context (render ws out)) = []
         \<and> ctx_fullscreen_view (render_context (render ws out)) = Some v
         \<and> ctx_trace (render_context (render ws out)) =
             ctx_trace (render_context out) @ [DoRender [] (Some v)]
             @ (if new_alpha out < 1 then [DamageWhole] else [])"
  using assms
  by (simp add: render_def Let_def trace_finish_render views_finish_render
      fullscreen_finish_render context_reset_def)

theorem render_fullscreen_bypass_witness:
  "ctx_views (render_context (render ex_fullscreen_store ex_settled)) = []
   \<and> ctx_fullscreen_view (render_context (render ex_fullscreen_store ex_settled)) = Some view_a
   \<and> ctx_trace (render_context (render ex_fullscreen_store ex_settled)) =
       [DoRender [] (Some view_a)]"
proof -
  have "new_alpha ex_settled = 1"
    by (simp add: new_alpha_def step_alpha_min restart_alpha_def ex_settled_def)
  then show ?thesis
    using render_fullscreen_bypass [of ex_settled ex_fullscreen_store view_a]
    by (simp add: ex_settled_def ex_fullscreen_store_def empty_context_def)
qed

section \<open>Transition frames\<close>

lemma prev_entry_blended: "prev_entry f dx = blended f (- dx)"
  by (rule ext) (simp add: prev_entry_def blended_def get_render_data_def Let_def)

lemma cur_entry_blended: "cur_entry f dx = blended f dx"
  by (rule ext) (simp add: cur_entry_def blended_def get_render_data_def Let_def)

lemma blended_plain: "blended 1 0 v = (v, get_render_data v)"
  by (simp add: blended_def get_render_data_def)

lemma views_render_transition:
  assumes "enabled out"
    and "\<not> (prev_workspace out = Some (workspace out)
            \<and> fullscreen_view (ws (workspace out)) \<noteq> None)"
  shows "ctx_views (render_context (render ws out)) =
           prev_views ws out (new_alpha out)
           @ cur_views ws out
               (if 1 \<le> new_alpha out then Some (workspace out) else prev_workspace out)
               (new_alpha out)"
  using assms
  by (auto simp add: render_def Let_def views_finish_render context_reset_def)

text \<open>
  C1. In a transition frame of an enabled output of width \<open>W\<close> (a previous workspace
  is set, the fullscreen bypass is not taken, and the blend factor \<open>a\<close> of this frame
  is strictly between \<open>0\<close> and \<open>1\<close>) the batch is: every visible view of the previous
  workspace with opacity scaled by \<open>1 - a\<close> and displaced by \<open>W * a\<close>, then every
  visible view of the current workspace with opacity scaled by \<open>a\<close> and displaced by
  the complementary \<open>W * (1 - a)\<close>. When the new workspace's index is below the
  previous one's, the previous views move by \<open>+ W * a\<close> and the new ones by
  \<open>- W * (1 - a)\<close>; otherwise both signs are the opposite. From index 2 to index 0
  at width 1000 and \<open>a = 3/10\<close>: previous views at \<open>+300\<close> with factor \<open>7/10\<close>, new
  views at \<open>-700\<close> with factor \<open>3/10\<close>.
\<close>

theorem render_transition_batch:
  assumes "enabled out"
    and "prev_workspace out = Some p"
    and "\<not> (p = workspace out \<and> fullscreen_view (ws (workspace out)) \<noteq> None)"
    and "0 < new_alpha out" and "new_alpha out < 1"
  shows "ctx_views (render_context (render ws out)) =
           map (blended (1 - new_alpha out)
                  (if ws_index (ws (workspace out)) < ws_index (ws p)
                   then real_of_int (out_width out) * new_alpha out
                   else - (real_of_int (out_width out) * new_alpha out)))
               (visible_views (ws p))
           @ map (blended (new_alpha out)
                  (if ws_index (ws (workspace out)) < ws_index (ws p)
                   then - (real_of_int (out_width out) * (1 - new_alpha out))
                   else real_of_int (out_width out) * (1 - new_alpha out)))
               (visible_views (ws (workspace out)))"
proof -
  have "ctx_views (render_context (render ws out)) =
          prev_views ws out (new_alpha out)
          @ cur_views ws out (Some p) (new_alpha out)"
    using assms by (simp add: views_render_transition)
  then show ?thesis
    using assms
    by (simp add: prev_views_def cur_views_def Let_def prev_entry_blended cur_entry_blended)
qed

theorem render_transition_batch_witness:
  "new_alpha (ex_output (1 / 5)) = 3 / 10
   \<and> ws_index (ex_store 0) = 0 \<and> ws_index (ex_store 2) = 2
   \<and> ctx_views (render_context (render ex_store (ex_output (1 / 5)))) =
       [blended (7 / 10) 300 view_a, blended (3 / 10) (- 700) view_b]"
proof -
  have a: "new_alpha (ex_output (1 / 5)) = 3 / 10"
    by (simp add: new_alpha_def step_alpha_min restart_alpha_def ex_output_def)
  have h: "enabled (ex_output (1 / 5))" "prev_workspace (ex_output (1 / 5)) = Some 2"
    "\<not> (2 = workspace (ex_output (1 / 5))
        \<and> fullscreen_view (ex_store (workspace (ex_output (1 / 5)))) \<noteq> None)"
    by (simp_all add: ex_output_def)
  have w: "workspace (ex_output (1 / 5)) = 0" "out_width (ex_output (1 / 5)) = 1000"
    by (simp_all add: ex_output_def)
  show ?thesis
    using render_transition_batch [of "ex_output (1 / 5)" 2 ex_store, OF h]
    by (simp add: a w ex_store_def)
qed

text \<open>
  C2, as amended. Once the blend factor reaches \<open>1\<close> in a \<^verbatim>\<open>render()\<close> of an enabled
  output, \<^verbatim>\<open>prev_workspace\<close> is set to the current workspace (it is not nulled:
  equality of the two pointers is how the code marks a finished transition), before
  the current workspace's views are appended; that frame and the next one hold only
  the current workspace's views, at full opacity and without displacement (or, when
  the workspace has a fullscreen view, the next frame is that view alone).
\<close>

theorem render_completes_transition:
  assumes "enabled out" and "1 \<le> new_alpha out"
  shows "ws_alpha (render ws out) = 1
         \<and> prev_workspace (render ws out) = Some (workspace out)
         \<and> (prev_workspace out = Some (workspace out)
              \<and> fullscreen_view (ws (workspace out)) \<noteq> None
            \<or> ctx_views (render_context (render ws out)) =
                 map (\<lambda>v. (v, get_render_data v)) (visible_views (ws (workspace out))))
         \<and> ws_alpha (render ws (render ws out)) = 1
         \<and> prev_workspace (render ws (render ws out)) = Some (workspace out)
         \<and> (fullscreen_view (ws (workspace out)) = None \<longrightarrow>
              ctx_views (render_context (render ws (render ws out))) =
                map (\<lambda>v. (v, get_render_data v)) (visible_views (ws (workspace out))))
         \<and> (fullscreen_view (ws (workspace out)) \<noteq> None \<longrightarrow>
              ctx_views (render_context (render ws (render ws out))) = []
              \<and> ctx_fullscreen_view (render_context (render ws (render ws out))) =
                  fullscreen_view (ws (workspace out)))"
proof -
  let ?o = "render ws out"
  have a: "new_alpha out = 1"
    using assms(2) by (simp add: new_alpha_def step_alpha_min)
  have first: "ws_alpha ?o = 1" "prev_workspace ?o = Some (workspace out)"
      "workspace ?o = workspace out" "enabled ?o"
    using assms(1) a by (auto simp add: render_def Let_def)
  have batch1: "ctx_views (render_context ?o) =
      map (\<lambda>v. (v, get_render_data v)) (visible_views (ws (workspace out)))"
    if "\<not> (prev_workspace out = Some (workspace out)
            \<and> fullscreen_view (ws (workspace out)) \<noteq> None)"
    using views_render_transition [of out ws, OF assms(1) that] a
    by (simp add: prev_views_def cur_views_def cur_entry_blended blended_plain
        split: option.splits)
  have a2: "new_alpha ?o = 1"
    using first by (simp add: new_alpha_def step_alpha_min restart_alpha_def)
  have second: "ws_alpha (render ws ?o) = 1" "prev_workspace (render ws ?o) = Some (workspace out)"
    using first a2 by (auto simp add: render_def Let_def)
  have batch2: "ctx_views (render_context (render ws ?o)) =
      map (\<lambda>v. (v, get_render_data v)) (visible_views (ws (workspace out)))"
    if "fullscreen_view (ws (workspace out)) = None"
    using views_render_transition [of ?o ws] first that a2
    by (simp add: prev_views_def cur_views_def cur_entry_blended blended_plain)
  have bypass2: "ctx_views (render_context (render ws ?o)) = []
      \<and> ctx_fullscreen_view (render_context (render ws ?o)) = fullscreen_view (ws (workspace out))"
    if "fullscreen_view (ws (workspace out)) \<noteq> None"
    using first that
    by (simp add: render_def Let_def views_finish_render fullscreen_finish_render
        context_reset_def)
  from first second batch1 batch2 bypass2 show ?thesis by blast
qed

theorem render_completes_transition_witness:
  "ws_alpha (render ex_store (ex_output (9 / 10))) = 1
   \<and> prev_workspace (render ex_store (ex_output (9 / 10))) = Some 0
   \<and> ctx_views (render_context (render ex_store (ex_output (9 / 10)))) =
       [(view_b, get_render_data view_b)]
   \<and> ctx_views (render_context (render ex_store (render ex_store (ex_output (9 / 10))))) =
       [(view_b, get_render_data view_b)]"
proof -
  have a: "1 \<le> new_alpha (ex_output (9 / 10))"
    by (simp add: new_alpha_def step_alpha_min restart_alpha_def ex_output_def)
  have h: "enabled (ex_output (9 / 10))" "workspace (ex_output (9 / 10)) = 0"
    "prev_workspace (ex_output (9 / 10)) = Some 2"
    by (simp_all add: ex_output_def)
  show ?thesis
    using render_completes_transition [of "ex_output (9 / 10)" ex_store, OF h(1) a]
    by (simp add: h ex_store_def)
qed

text \<open>
  The claim as the specification words it fails: after the frame in which the blend
  factor reaches \<open>1\<close> the pointer \<^verbatim>\<open>prev_workspace\<close> is not null.
\<close>

theorem prev_workspace_not_nulled_counterexample:
  "enabled (ex_output (9 / 10))
   \<and> ws_alpha (render ex_store (ex_output (9 / 10))) = 1
   \<and> prev_workspace (render ex_store (ex_output (9 / 10))) = Some 0
   \<and> prev_workspace (render ex_store (ex_output (9 / 10))) \<noteq> None"
proof -
  have a: "new_alpha (ex_output (9 / 10)) = 1"
    by (simp add: new_alpha_def step_alpha_min restart_alpha_def ex_output_def)
  show ?thesis
    by (simp add: render_def Let_def a) (simp add: ex_output_def ex_store_def)
qed

section \<open>Properties of the mode negotiation\<close>

text \<open>The exponent that \<open>binade\<close> computes is the one of the binade of its argument.\<close>

lemma binade_bounds:
  assumes "0 < y"
  shows "pow2 (binade y) \<le> y \<and> y < pow2 (binade y + 1)"
proof (cases "1 \<le> y")
  case True
  let ?n = "\<lfloor>y\<rfloor>"
  from True have n: "0 < ?n" by simp
  have b1: "1 \<le> bitlen ?n"
    using n by (simp add: bitlen_alt_def)
  from bitlen_bounds [OF n]
  have lo: "2 ^ nat (bitlen ?n - 1) \<le> ?n" and hi: "?n < 2 ^ nat (bitlen ?n)"
    by simp_all
  have "real_of_int (2 ^ nat (bitlen ?n - 1)) \<le> real_of_int ?n"
    using lo by (simp only: of_int_le_iff)
  then have "(2::real) ^ nat (bitlen ?n - 1) \<le> real_of_int ?n"
    by simp
  moreover have "real_of_int ?n \<le> y"
    by simp
  ultimately have l: "(2::real) ^ nat (bitlen ?n - 1) \<le> y"
    by linarith
  have "?n + 1 \<le> 2 ^ nat (bitlen ?n)"
    using hi by simp
  then have "real_of_int (?n + 1) \<le> real_of_int (2 ^ nat (bitlen ?n))"
    by (simp only: of_int_le_iff)
  then have "real_of_int ?n + 1 \<le> (2::real) ^ nat (bitlen ?n)"
    by simp
  moreover have "y < real_of_int ?n + 1"
    by linarith
  ultimately have h: "y < (2::real) ^ nat (bitlen ?n)"
    by linarith
  from True b1 l h show ?thesis
    by (simp add: binade_def pow2_def)
next
  case False
  let ?n = "\<lceil>1 / y\<rceil> - 1"
  from False assms have z: "1 < 1 / y" by simp
  then have n: "0 < ?n" by linarith
  have b1: "1 \<le> bitlen ?n"
    using n by (simp add: bitlen_alt_def)
  from bitlen_bounds [OF n]
  have lo: "2 ^ nat (bitlen ?n - 1) \<le> ?n" and hi: "?n < 2 ^ nat (bitlen ?n)"
    by simp_all
  have "?n + 1 \<le> 2 ^ nat (bitlen ?n)"
    using hi by simp
  then have "real_of_int (?n + 1) \<le> real_of_int (2 ^ nat (bitlen ?n))"
    by (simp only: of_int_le_iff)
  then have "real_of_int ?n + 1 \<le> (2::real) ^ nat (bitlen ?n)"
    by simp
  moreover have "1 / y \<le> real_of_int ?n + 1"
    by linarith
  ultimately have "1 / y \<le> (2::real) ^ nat (bitlen ?n)"
    by linarith
  then have l: "1 / 2 ^ nat (bitlen ?n) \<le> y"
    using assms by (simp add: field_simps)
  have "real_of_int (2 ^ nat (bitlen ?n - 1)) \<le> real_of_int ?n"
    using lo by (simp only: of_int_le_iff)
  then have "(2::real) ^ nat (bitlen ?n - 1) \<le> real_of_int ?n"
    by simp
  moreover have "real_of_int ?n < 1 / y"
    by linarith
  ultimately have "(2::real) ^ nat (bitlen ?n - 1) < 1 / y"
    by linarith
  then have h: "y < 1 / 2 ^ nat (bitlen ?n - 1)"
    using assms by (simp add: field_simps)
  have e: "nat (bitlen ?n - 1) = nat (bitlen ?n) - 1"
    by (simp add: nat_diff_distrib')
  show ?thesis
  proof (cases "bitlen ?n = 1")
    case True
    with False l h show ?thesis
      by (simp add: binade_def pow2_def)
  next
    case ne: False
    with b1 have "1 < bitlen ?n" by simp
    with False l h show ?thesis
      by (simp add: binade_def pow2_def)
  qed
qed

lemma scan_modes_no_match:
  "\<not> wh_match oc m \<Longrightarrow> scan_modes oc mhz (m # ms) best = scan_modes oc mhz ms best"
  by (auto simp add: wh_match_def)

lemma scan_modes_exact:
  "wh_match oc m \<Longrightarrow> mode_refresh m = mhz \<Longrightarrow> scan_modes oc mhz (m # ms) best = Some m"
  by (simp add: wh_match_def)

lemma scan_modes_inexact:
  "wh_match oc m \<Longrightarrow> mode_refresh m \<noteq> mhz \<Longrightarrow>
     scan_modes oc mhz (m # ms) best = scan_modes oc mhz ms (Some m)"
  by (simp add: wh_match_def)

lemma scan_modes_spec:
  assumes "mhz_of oc = Some mhz"
  shows "scan_modes oc mhz ms best =
     (case find (exact_match oc) ms of
        Some m \<Rightarrow> Some m
      | None \<Rightarrow>
          (case filter (wh_match oc) ms of
             [] \<Rightarrow> best
           | m # ms' \<Rightarrow> Some (last (m # ms'))))"
proof (induction ms arbitrary: best)
  case Nil
  show ?case by simp
next
  case (Cons m ms)
  show ?case
  proof (cases "wh_match oc m")
    case False
    then have "\<not> exact_match oc m"
      by (simp add: exact_match_def)
    with False show ?thesis
      using Cons.IH [of best]
      by (simp add: scan_modes_no_match del: scan_modes.simps split: option.splits)
  next
    case wh: True
    show ?thesis
    proof (cases "mode_refresh m = mhz")
      case True
      with wh assms have "exact_match oc m"
        by (simp add: exact_match_def)
      with wh True show ?thesis
        by (simp add: scan_modes_exact del: scan_modes.simps)
    next
      case False
      with assms have "\<not> exact_match oc m"
        by (simp add: exact_match_def)
      with wh False show ?thesis
        using Cons.IH [of "Some m"]
        by (simp add: scan_modes_inexact del: scan_modes.simps
            split: option.splits list.splits)
    qed
  qed
qed

lemma set_mode_eq_spec: "set_mode modes oc = set_mode_spec modes oc"
  by (simp add: set_mode_def set_mode_spec_def scan_modes_spec
      split: option.splits list.splits)

lemma mhz_of_examples:
  "mhz_of (ex_config en 144) = Some 144000"
  "mhz_of (ex_config en 75) = Some 75000"
  "mhz_of (ex_config en 60) = Some 60000"
  "mhz_of (ex_config en (5994 / 100)) = Some 59940"
  "mhz_of (ex_config en (6499 / 100)) = Some 64989"
  "mhz_of (ex_config en (- (5 / 10000))) = Some 0"
  "mhz_of (ex_config en 3000000) = None"
  by (simp_all add: mhz_of_def refresh_product_def ex_config_def) code_simp+


lemma wh_match_examples:
  "wh_match (ex_config en r) mode_1080_60"
  "wh_match (ex_config en r) mode_1080_144"
  "wh_match (ex_config en r) mode_1080_5994"
  "\<not> wh_match (ex_config en r) mode_720_60"
  by (simp_all add: wh_match_def ex_config_def mode_1080_60_def mode_1080_144_def
      mode_1080_5994_def mode_720_60_def)

lemma mode_refresh_examples:
  "mode_refresh mode_1080_60 = 60000" "mode_refresh mode_1080_144 = 144000"
  "mode_refresh mode_1080_5994 = 59940" "mode_refresh mode_720_60 = 60000"
  by (simp_all add: mode_1080_60_def mode_1080_144_def mode_1080_5994_def mode_720_60_def)

text \<open>
  C3. \<^verbatim>\<open>set_mode\<close> does what the specification says: with no advertised mode it
  requests a custom mode of the target's width and height; otherwise it selects the
  first advertised mode that matches width, height and refresh, else the last one
  that matches width and height, else it logs the error and sets no mode. With
  1920x1080 at 60 and at 144 advertised and 1920x1080 at 144 configured, the mode at
  144 is selected.
\<close>

theorem set_mode_meets_spec: "set_mode modes oc = set_mode_spec modes oc"
  by (rule set_mode_eq_spec)

theorem set_mode_meets_spec_witness:
  "set_mode [mode_1080_60, mode_1080_144] (ex_config True 144) = [SetMode mode_1080_144]
   \<and> set_mode [mode_1080_144, mode_1080_60] (ex_config True 144) = [SetMode mode_1080_144]
   \<and> set_mode [mode_1080_60, mode_720_60, mode_1080_144] (ex_config True 75)
       = [SetMode mode_1080_144]
   \<and> set_mode [mode_720_60] (ex_config True 144)
       = [LogE ''Configured mode for {} not available'']
   \<and> set_mode [] (ex_config True 144) = [SetCustomMode 1920 1080 144000]"
proof -
  have ex: "exact_match (ex_config True 144) mode_1080_144"
    "\<not> exact_match (ex_config True 144) mode_1080_60"
    "\<not> exact_match (ex_config True 75) mode_1080_60"
    "\<not> exact_match (ex_config True 75) mode_1080_144"
    "\<not> exact_match (ex_config True r) mode_720_60" for r
    by (simp_all add: exact_match_def wh_match_examples mhz_of_examples mode_refresh_examples)
  have wh: "cm_width (oc_mode (ex_config True 144)) = 1920"
    "cm_height (oc_mode (ex_config True 144)) = 1080"
    by (simp_all add: ex_config_def)
  show ?thesis
    using set_mode_meets_spec [of "[mode_1080_60, mode_1080_144]" "ex_config True 144"]
      set_mode_meets_spec [of "[mode_1080_144, mode_1080_60]" "ex_config True 144"]
      set_mode_meets_spec [of "[mode_1080_60, mode_720_60, mode_1080_144]" "ex_config True 75"]
      set_mode_meets_spec [of "[mode_720_60]" "ex_config True 144"]
      set_mode_meets_spec [of "[]" "ex_config True 144"]
    by (simp add: set_mode_spec_def ex wh wh_match_examples mhz_of_examples)
qed

lemma int_of_float_iff:
  "int_of_float x = Some k \<longleftrightarrow>
     - (2 ^ 31) \<le> k \<and> k < 2 ^ 31
     \<and> \<bar>real_of_int k\<bar> \<le> \<bar>x\<bar> \<and> \<bar>x\<bar> < \<bar>real_of_int k\<bar> + 1 \<and> 0 \<le> real_of_int k * x"
proof (cases "0 \<le> x")
  case True
  have "\<lfloor>x\<rfloor> = k \<longleftrightarrow> real_of_int k \<le> x \<and> x < real_of_int k + 1"
    by (simp add: floor_eq_iff)
  with True show ?thesis
    by (auto simp add: int_of_float_def Let_def zero_le_mult_iff)
next
  case False
  have "\<lceil>x\<rceil> = k \<longleftrightarrow> real_of_int k - 1 < x \<and> x \<le> real_of_int k"
    by (simp add: ceiling_eq_iff)
  with False show ?thesis
    by (auto simp add: int_of_float_def Let_def zero_le_mult_iff)
qed

lemma find_append_none:
  "\<forall>p \<in> set pre. \<not> P p \<Longrightarrow> find P (pre @ ys) = find P ys"
  by (induction pre) auto

text \<open>
  C10. \<^verbatim>\<open>set_mode\<close> compares refresh rates in integer millihertz. For an advertised
  mode of matching width and height that the scan reaches (no exact match stands
  before it), the scan stops at the mode and selects it whatever follows if and only
  if the mode's refresh field equals \<open>mhz_of oc\<close>; and that is the product of the
  configured rate and 1000, as the \<^verbatim>\<open>float\<close> multiplication of line 78 gives it,
  truncated toward zero: the integer of the same sign whose magnitude is the integral
  part of the product's magnitude, provided it is a value of the 32-bit \<^verbatim>\<open>int\<close>.
\<close>

theorem set_mode_exact_refresh_iff:
  assumes "mode_width m = cm_width (oc_mode oc)"
    and "mode_height m = cm_height (oc_mode oc)"
    and "\<forall>p \<in> set pre. \<not> exact_match oc p"
  shows "((\<forall>rest. set_mode (pre @ m # rest) oc = [SetMode m])
            \<longleftrightarrow> mhz_of oc = Some (mode_refresh m))
         \<and> (mhz_of oc = Some (mode_refresh m) \<longleftrightarrow>
              - (2 ^ 31) \<le> mode_refresh m \<and> mode_refresh m < 2 ^ 31
              \<and> \<bar>real_of_int (mode_refresh m)\<bar> \<le> \<bar>refresh_product oc\<bar>
              \<and> \<bar>refresh_product oc\<bar> < \<bar>real_of_int (mode_refresh m)\<bar> + 1
              \<and> 0 \<le> real_of_int (mode_refresh m) * refresh_product oc)"
proof -
  let ?exact = "mhz_of oc = Some (mode_refresh m)"
  have wh: "wh_match oc m"
    using assms(1,2) by (simp add: wh_match_def)
  have em: "exact_match oc m \<longleftrightarrow> ?exact"
    using wh by (simp add: exact_match_def)
  have found: "find (exact_match oc) (pre @ m # rest) =
      (if ?exact then Some m else find (exact_match oc) rest)" for rest
    using em by (simp add: find_append_none [OF assms(3)])
  have hit: "set_mode (pre @ m # rest) oc = [SetMode m]" if ?exact for rest
    using that by (simp add: set_mode_eq_spec set_mode_spec_def found)
  have miss: "\<exists>rest. set_mode (pre @ m # rest) oc \<noteq> [SetMode m]" if "\<not> ?exact"
  proof (cases "mhz_of oc")
    case None
    then have "set_mode (pre @ m # []) oc = [Undefined]"
      by (simp add: set_mode_def)
    then have "set_mode (pre @ m # []) oc \<noteq> [SetMode m]"
      by simp
    then show ?thesis ..
  next
    case (Some k)
    let ?m' = "m\<lparr>mode_refresh := k\<rparr>"
    from Some that have ne: "k \<noteq> mode_refresh m"
      by auto
    have "exact_match oc ?m'"
      using wh Some by (simp add: exact_match_def wh_match_def)
    then have "set_mode (pre @ m # [?m']) oc = [SetMode ?m']"
      using that Some by (simp add: set_mode_eq_spec set_mode_spec_def found)
    moreover have "?m' \<noteq> m"
    proof
      assume "?m' = m"
      then have "mode_refresh ?m' = mode_refresh m" by simp
      with ne show False by simp
    qed
    ultimately have "set_mode (pre @ m # [?m']) oc \<noteq> [SetMode m]"
      by simp
    then show ?thesis ..
  qed
  have first: "(\<forall>rest. set_mode (pre @ m # rest) oc = [SetMode m]) \<longleftrightarrow> ?exact"
    using hit miss by blast
  have second: "?exact \<longleftrightarrow>
      - (2 ^ 31) \<le> mode_refresh m \<and> mode_refresh m < 2 ^ 31
      \<and> \<bar>real_of_int (mode_refresh m)\<bar> \<le> \<bar>refresh_product oc\<bar>
      \<and> \<bar>refresh_product oc\<bar> < \<bar>real_of_int (mode_refresh m)\<bar> + 1
      \<and> 0 \<le> real_of_int (mode_refresh m) * refresh_product oc"
    unfolding mhz_of_def by (rule int_of_float_iff)
  from first second show ?thesis by blast
qed

theorem set_mode_exact_refresh_iff_witness:
  "refresh_product (ex_config True (5994 / 100)) = 59940
   \<and> mhz_of (ex_config True (5994 / 100)) = Some 59940
   \<and> refresh_product (ex_config True (6499 / 100)) = 16637439 / 256
   \<and> mhz_of (ex_config True (6499 / 100)) = Some 64989
   \<and> mhz_of (ex_config True (- (5 / 10000))) = Some 0
   \<and> mhz_of (ex_config True 3000000) = None
   \<and> (\<forall>rest. set_mode ([mode_720_60] @ mode_1080_5994 # rest) (ex_config True (5994 / 100))
         = [SetMode mode_1080_5994])
   \<and> set_mode [mode_1080_5994, mode_1080_60] (ex_config True (5994 / 100))
       = [SetMode mode_1080_5994]
   \<and> \<not> (\<forall>rest. set_mode ([mode_720_60] @ mode_1080_60 # rest) (ex_config True (5994 / 100))
         = [SetMode mode_1080_60])"
proof -
  have rp: "refresh_product (ex_config True (5994 / 100)) = 59940"
    "refresh_product (ex_config True (6499 / 100)) = 16637439 / 256"
    by (simp_all add: refresh_product_def ex_config_def) code_simp+
  have p: "\<forall>p \<in> set [mode_720_60]. \<not> exact_match (ex_config True r) p" for r
    by (simp add: exact_match_def wh_match_examples)
  have p0: "\<forall>p \<in> set []. \<not> exact_match (ex_config True r) p" for r
    by simp
  have w: "mode_width mode_1080_5994 = cm_width (oc_mode (ex_config True r))"
    "mode_height mode_1080_5994 = cm_height (oc_mode (ex_config True r))"
    "mode_width mode_1080_60 = cm_width (oc_mode (ex_config True r))"
    "mode_height mode_1080_60 = cm_height (oc_mode (ex_config True r))" for r
    by (simp_all add: ex_config_def mode_1080_5994_def mode_1080_60_def)
  note r = mode_refresh_examples
  have a: "\<forall>rest. set_mode ([mode_720_60] @ mode_1080_5994 # rest) (ex_config True (5994 / 100))
         = [SetMode mode_1080_5994]"
    using set_mode_exact_refresh_iff [OF w(1,2) p, of "5994 / 100", THEN conjunct1]
      mhz_of_examples(4) [of True]
    by (simp add: r)
  have b: "\<forall>rest. set_mode ([] @ mode_1080_5994 # rest) (ex_config True (5994 / 100))
         = [SetMode mode_1080_5994]"
    using set_mode_exact_refresh_iff [OF w(1,2) p0, of "5994 / 100", THEN conjunct1]
      mhz_of_examples(4) [of True]
    by (simp add: r)
  have c: "\<not> (\<forall>rest. set_mode ([mode_720_60] @ mode_1080_60 # rest) (ex_config True (5994 / 100))
         = [SetMode mode_1080_60])"
    using set_mode_exact_refresh_iff [OF w(3,4) p, of "5994 / 100", THEN conjunct1]
      mhz_of_examples(4) [of True]
    by (simp add: r)
  from b have b': "set_mode [mode_1080_5994, mode_1080_60] (ex_config True (5994 / 100))
       = [SetMode mode_1080_5994]"
    by simp
  from rp a b' c mhz_of_examples [of True] show ?thesis
    by blast
qed

section \<open>Properties of the construction\<close>

lemma mode_requests_AddMode: "mode_requests (map AddMode xs) = []"
  by (induction xs) (simp_all add: mode_requests_def)

lemma mode_requests_append: "mode_requests (xs @ ys) = mode_requests xs @ mode_requests ys"
  by (simp add: mode_requests_def)

lemma set_mode_example_60:
  "set_mode [mode_1080_60, mode_720_60] (ex_config en 60) = [SetMode mode_1080_60]"
proof -
  have "exact_match (ex_config en 60) mode_1080_60"
    by (simp add: exact_match_def wh_match_examples mhz_of_examples mode_refresh_examples)
  then show ?thesis
    by (simp add: set_mode_eq_spec set_mode_spec_def mhz_of_examples)
qed

text \<open>
  C7, as amended. The constructor first selects the last advertised mode (the one
  that the code takes for the backend's preferred mode) whenever a mode is
  advertised. When the output has a configuration entry that is enabled and
  configures a mode (a width other than 0), \<^verbatim>\<open>set_mode\<close> then negotiates the
  configured mode; with no entry, a disabled entry or no configured mode, the
  preferred mode is the only one requested.
\<close>

theorem output_ctor_mode_requests:
  "mode_requests (output_ctor add_mode is_drm modes output_config) =
     (if modes = [] then [] else [SetMode (last modes)])
     @ (case output_config of
          None \<Rightarrow> []
        | Some oc \<Rightarrow>
            if oc_enable oc \<and> cm_width (oc_mode oc) \<noteq> 0
            then mode_requests
                   (set_mode (if is_drm then foldl add_mode modes (oc_modes oc) else modes) oc)
            else [])"
  by (simp add: output_ctor_def mode_requests_append mode_requests_AddMode
      split: option.splits)
     (simp add: mode_requests_def)

theorem output_ctor_mode_requests_witness:
  "mode_requests (output_ctor (\<lambda>ms i. ms) False [mode_1080_60, mode_720_60]
       (Some (ex_config True 60))) = [SetMode mode_720_60, SetMode mode_1080_60]
   \<and> mode_requests (output_ctor (\<lambda>ms i. ms) False [mode_1080_60, mode_720_60] None)
       = [SetMode mode_720_60]"
proof -
  have c: "oc_enable (ex_config True 60)" "cm_width (oc_mode (ex_config True 60)) = 1920"
    by (simp_all add: ex_config_def)
  show ?thesis
    using output_ctor_mode_requests [of "\<lambda>ms i. ms" False "[mode_1080_60, mode_720_60]"
        "Some (ex_config True 60)"]
      output_ctor_mode_requests [of "\<lambda>ms i. ms" False "[mode_1080_60, mode_720_60]" None]
    by (simp add: c set_mode_example_60 mode_requests_def)
qed

text \<open>
  The claim without the enable flag fails: a disabled entry configures 1920x1080 at
  60, which is advertised and which \<^verbatim>\<open>set_mode\<close> would select, yet the constructor
  requests the last advertised mode only and disables the output.
\<close>

theorem disabled_config_mode_counterexample:
  "cm_width (oc_mode (ex_config False 60)) = 1920
   \<and> set_mode [mode_1080_60, mode_720_60] (ex_config False 60) = [SetMode mode_1080_60]
   \<and> output_ctor (\<lambda>ms i. ms) False [mode_1080_60, mode_720_60] (Some (ex_config False 60))
       = [SetMode mode_720_60, OutputEnable False, ArrangeLayers, ContextDamageWhole]"
  by (simp add: set_mode_example_60) (simp add: output_ctor_def ex_config_def)

section \<open>Properties of the binding of globals\<close>

lemma seat_name_distinct:
  "virtual_keyboard_manager_interface_name \<noteq> seat_interface_name"
  "layer_shell_interface_name \<noteq> seat_interface_name"
  by (simp_all add: virtual_keyboard_manager_interface_name_def layer_shell_interface_name_def
      seat_interface_name_def)

lemma on_global_seat_bound:
  assumes "seat c \<noteq> None"
  shows "seat (on_global c g) = seat c"
    and "binds_of seat_interface_name (on_global c g) = binds_of seat_interface_name c"
  using assms seat_name_distinct
  by (auto simp add: on_global_def binds_of_def Let_def split: prod.splits)

lemma on_global_seat_unbound:
  assumes "seat (on_global c g) = None"
  shows "binds_of seat_interface_name (on_global c g) = binds_of seat_interface_name c"
  using assms seat_name_distinct
  by (auto simp add: on_global_def binds_of_def Let_def split: prod.splits if_splits)

lemma on_global_seat_binds_le:
  "length (binds_of seat_interface_name (on_global c g))
     \<le> length (binds_of seat_interface_name c) + 1"
  by (auto simp add: on_global_def binds_of_def Let_def split: prod.splits)

lemma foldl_on_global_seat_bound:
  "seat c \<noteq> None \<Longrightarrow>
     seat (foldl on_global c gs) = seat c
     \<and> binds_of seat_interface_name (foldl on_global c gs) = binds_of seat_interface_name c"
  by (induction gs arbitrary: c) (simp_all add: on_global_seat_bound)

lemma foldl_on_global_seat_binds_le:
  "length (binds_of seat_interface_name (foldl on_global c gs))
     \<le> length (binds_of seat_interface_name c) + 1"
proof (induction gs arbitrary: c)
  case Nil
  show ?case by simp
next
  case (Cons g gs)
  show ?case
  proof (cases "seat (on_global c g) = None")
    case True
    then show ?thesis
      using Cons.IH [of "on_global c g"] by (simp add: on_global_seat_unbound)
  next
    case False
    then show ?thesis
      using on_global_seat_binds_le [of c g]
      by (simp add: foldl_on_global_seat_bound)
  qed
qed

text \<open>
  C9, as amended. Binding the seat is idempotent: for every sequence of
  announcements, \<^verbatim>\<open>bind_interfaces\<close> issues no seat bind and keeps the bound seat
  when a seat is bound already, and it issues at most one seat bind in any case (the
  test for an object that is bound already guards the seat only).
\<close>

theorem seat_bound_at_most_once:
  "(seat c \<noteq> None \<longrightarrow>
      seat (bind_interfaces c roundtrip1 roundtrip2) = seat c
      \<and> binds_of seat_interface_name (bind_interfaces c roundtrip1 roundtrip2)
          = binds_of seat_interface_name c)
   \<and> length (binds_of seat_interface_name (bind_interfaces c roundtrip1 roundtrip2))
       \<le> length (binds_of seat_interface_name c) + 1"
proof -
  have run: "bind_interfaces c roundtrip1 roundtrip2 = foldl on_global c (roundtrip1 @ roundtrip2)"
    by (simp add: bind_interfaces_def)
  show ?thesis
    unfolding run
    using foldl_on_global_seat_bound [of c "roundtrip1 @ roundtrip2"]
      foldl_on_global_seat_binds_le [of c "roundtrip1 @ roundtrip2"]
    by blast
qed

theorem seat_bound_at_most_once_witness:
  "seat seat_client = Some (3, 5)
   \<and> seat (bind_interfaces seat_client [(4, seat_interface_name, 6)] [(7, seat_interface_name, 6)])
       = Some (3, 5)
   \<and> binds_of seat_interface_name
       (bind_interfaces seat_client [(4, seat_interface_name, 6)] [(7, seat_interface_name, 6)])
       = [Bind 3 seat_interface_name 5]"
proof -
  have s: "seat seat_client = Some (3, 5)"
    "binds_of seat_interface_name seat_client = [Bind 3 seat_interface_name 5]"
    by (simp_all add: seat_client_def bind_interfaces_def on_global_def unbound_client_def
        binds_of_def virtual_keyboard_manager_interface_name_def
        layer_shell_interface_name_def seat_interface_name_def)
  show ?thesis
    using seat_bound_at_most_once [of seat_client "[(4, seat_interface_name, 6)]"
        "[(7, seat_interface_name, 6)]"]
    by (simp add: s)
qed

text \<open>
  The claim for any global fails: a second announcement of the layer shell is bound
  again, and the second object replaces the first.
\<close>

theorem layer_shell_rebound_counterexample:
  "layer_shell (bind_interfaces unbound_client [(1, layer_shell_interface_name, 1)] [])
     = Some (1, 1)
   \<and> registry_calls (bind_interfaces unbound_client
        [(1, layer_shell_interface_name, 1)] [(2, layer_shell_interface_name, 1)])
     = [Bind 1 layer_shell_interface_name 1, Bind 2 layer_shell_interface_name 1]
   \<and> layer_shell (bind_interfaces unbound_client
        [(1, layer_shell_interface_name, 1)] [(2, layer_shell_interface_name, 1)])
     = Some (2, 1)"
  by (simp add: bind_interfaces_def on_global_def unbound_client_def
      virtual_keyboard_manager_interface_name_def layer_shell_interface_name_def)

section \<open>Starting a transition\<close>




end
